theory Spec2Isabelle
  imports Complex_Main
begin

section \<open>Python values\<close>

text \<open>
  The integration handles JSON decoded by Python: \<open>None\<close>, booleans, integers,
  strings, lists and dictionaries with string keys. A dictionary is an association
  list, looked up with \<open>map_of\<close>. JSON numbers with a fraction or an exponent
  (Python floats) are not values of the model; no statement below is about them.
\<close>

datatype pyval =
    PNone
  | PBool bool
  | PInt int
  | PStr string
  | PList "pyval list"
  | PDict "(string \<times> pyval) list"

text \<open>
  The exceptions that occur. All of them are subclasses of Python's \<open>Exception\<close>,
  so \<open>except Exception\<close> catches each one. \<open>ClientError\<close> stands for whatever the
  HTTP session raises (connection refused, timeout, a body that is not JSON).
  \<open>CannotConnect e\<close> is \<open>raise CannotConnect from e\<close>.
\<close>

datatype exn =
    AttributeError
  | TypeError
  | KeyError
  | JSONDecodeError
  | ClientError
  | InvalidAuth
  | CannotConnect exn

text \<open>Truth value testing, as \<open>if x\<close> and \<open>x and y\<close> do it.\<close>

fun py_truthy :: "pyval \<Rightarrow> bool" where
  "py_truthy PNone = False"
| "py_truthy (PBool b) = b"
| "py_truthy (PInt i) = (i \<noteq> 0)"
| "py_truthy (PStr s) = (s \<noteq> [])"
| "py_truthy (PList xs) = (xs \<noteq> [])"
| "py_truthy (PDict kvs) = (kvs \<noteq> [])"

text \<open>\<open>d.get(key, default)\<close> on a dictionary held in a Python variable of the code.\<close>

definition dict_get :: "(string \<times> pyval) list \<Rightarrow> string \<Rightarrow> pyval \<Rightarrow> pyval" where
  "dict_get kvs k d = (case map_of kvs k of Some v \<Rightarrow> v | None \<Rightarrow> d)"

text \<open>
  \<open>x.get(key, default)\<close> on an arbitrary value: only a dictionary has the method,
  every other value raises \<open>AttributeError\<close>.
\<close>

fun py_get :: "pyval \<Rightarrow> string \<Rightarrow> pyval \<Rightarrow> exn + pyval" where
  "py_get (PDict kvs) k d = Inr (dict_get kvs k d)"
| "py_get PNone k d = Inl AttributeError"
| "py_get (PBool b) k d = Inl AttributeError"
| "py_get (PInt i) k d = Inl AttributeError"
| "py_get (PStr s) k d = Inl AttributeError"
| "py_get (PList xs) k d = Inl AttributeError"

text \<open>The numeric reading of a value: \<open>bool\<close> is a subclass of \<open>int\<close> in Python.\<close>

fun py_num :: "pyval \<Rightarrow> int option" where
  "py_num (PInt i) = Some i"
| "py_num (PBool b) = Some (if b then 1 else 0)"
| "py_num PNone = None"
| "py_num (PStr s) = None"
| "py_num (PList xs) = None"
| "py_num (PDict kvs) = None"

text \<open>\<open>x == n\<close> and \<open>x > n\<close> for an integer literal \<open>n\<close>.\<close>

definition py_eq_int :: "pyval \<Rightarrow> int \<Rightarrow> bool" where
  "py_eq_int x n = (py_num x = Some n)"

definition py_gt_int :: "pyval \<Rightarrow> int \<Rightarrow> exn + bool" where
  "py_gt_int x n = (case py_num x of Some i \<Rightarrow> Inr (n < i) | None \<Rightarrow> Inl TypeError)"

text \<open>\<open>x * n\<close> for an integer literal \<open>n\<close>: numbers multiply, sequences repeat.\<close>

fun py_mul_int :: "pyval \<Rightarrow> int \<Rightarrow> exn + pyval" where
  "py_mul_int (PInt i) n = Inr (PInt (i * n))"
| "py_mul_int (PBool b) n = Inr (PInt ((if b then 1 else 0) * n))"
| "py_mul_int (PStr s) n = Inr (PStr (concat (replicate (nat n) s)))"
| "py_mul_int (PList xs) n = Inr (PList (concat (replicate (nat n) xs)))"
| "py_mul_int PNone n = Inl TypeError"
| "py_mul_int (PDict kvs) n = Inl TypeError"

text \<open>
  True division \<open>x / d\<close>. Python computes it in IEEE double precision; the model takes
  the exact quotient. For the integers the statements below range over (raw speeds
  0..840 over 8.4, raw brightness 0..100 times 255 over 100, host brightness 0..255
  times 100 over 255) an exact quotient that is not an integer is at least \<open>1/51\<close>
  away from the next integer, far more than the rounding error of a double, and one
  that is an integer is returned exactly, so truncating the double and truncating the
  exact quotient give the same integer. Outside these ranges (integers beyond
  \<open>2^53\<close>) the double and the exact quotient can part; the lemmas on the
  conversions below keep to the ranges. The literal \<open>8.4\<close> is the rational
  \<open>42/5\<close>.
\<close>

definition py_truediv :: "pyval \<Rightarrow> rat \<Rightarrow> exn + rat" where
  "py_truediv x d = (case py_num x of Some i \<Rightarrow> Inr (of_int i / d) | None \<Rightarrow> Inl TypeError)"

text \<open>\<open>int(q)\<close> on a float: truncation towards zero.\<close>

definition py_int :: "rat \<Rightarrow> int" where
  "py_int q = (if 0 \<le> q then \<lfloor>q\<rfloor> else \<lceil>q\<rceil>)"

text \<open>
  \<open>json.loads\<close> is Python's library, not code of the integration: the decoder of
  strings is a parameter. \<open>json.loads\<close> of a value that is not a string raises
  \<open>TypeError\<close>.
\<close>

type_synonym decoder = "string \<Rightarrow> exn + pyval"

fun json_loads :: "decoder \<Rightarrow> pyval \<Rightarrow> exn + pyval" where
  "json_loads dec (PStr s) = dec s"
| "json_loads dec PNone = Inl TypeError"
| "json_loads dec (PBool b) = Inl TypeError"
| "json_loads dec (PInt i) = Inl TypeError"
| "json_loads dec (PList xs) = Inl TypeError"
| "json_loads dec (PDict kvs) = Inl TypeError"

section \<open>The world the integration acts on\<close>

text \<open>
  A request as the session sees it: the URL and, for a POST, the JSON body. The headers
  are a fixed content type and a random request id; they are left out.
\<close>

datatype http_request = Post string pyval | Get string

text \<open>The lines the module logs, with the values formatted into them.\<close>

datatype log_entry =
    ApiError pyval
  | ApiRequestError exn
  | ParseFanSpeedError exn
  | ParseBrightnessError exn
  | ConnectionError exn
  | UnexpectedException exn
  | SettingFan pyval pyval pyval pyval
  | SettingLight pyval pyval

text \<open>
  The state the code changes: the requests sent over the session, the log, the
  \<open>user_info\<close> attribute of the API client, and the number of refreshes requested
  from the coordinator (\<open>async_request_refresh\<close> only schedules one).
\<close>

record world =
  sent :: "http_request list"
  logged :: "log_entry list"
  user_info :: pyval
  refresh_requests :: nat

definition logger :: "log_entry \<Rightarrow> world \<Rightarrow> world" where
  "logger l w = w\<lparr>logged := logged w @ [l]\<rparr>"

definition async_request_refresh :: "world \<Rightarrow> world" where
  "async_request_refresh w = w\<lparr>refresh_requests := Suc (refresh_requests w)\<rparr>"

text \<open>
  The HTTP session belongs to the host. It answers a request with the decoded JSON body
  (\<open>await response.json()\<close>) or raises. Within one operation of the client every
  request differs from the others, so a function of the request describes it.
\<close>

type_synonym session = "http_request \<Rightarrow> exn + pyval"

section \<open>MarsProApi\<close>

definition PRODUCT_GROUP_LIGHT :: int where
  "PRODUCT_GROUP_LIGHT = 1"

definition PRODUCT_GROUP_FAN :: int where
  "PRODUCT_GROUP_FAN = 2"

definition PRODUCT_GROUP_OTHER :: "int list" where
  "PRODUCT_GROUP_OTHER = [3, 6, 7]"

definition base_url :: string where
  "base_url = ''https://mars-pro.api.lgledsolutions.com/api/''"

text \<open>
  \<open>_api_request\<close>: the whole body after the headers is inside \<open>try\<close>, so the call
  returns \<open>None\<close> on every exception and on every status code other than \<open>"000"\<close>.
\<close>

definition api_request :: "session \<Rightarrow> string \<Rightarrow> string \<Rightarrow> pyval \<Rightarrow> world \<Rightarrow> pyval \<times> world" where
  "api_request sess endpoint method data w =
     (let url = base_url @ endpoint;
          req = (if method = ''POST''
                 then Post url (if py_truthy data then data else PDict [])
                 else Get url);
          w1 = w\<lparr>sent := sent w @ [req]\<rparr>
      in case sess req of
           Inl e \<Rightarrow> (PNone, logger (ApiRequestError e) w1)
         | Inr response_json \<Rightarrow>
             (case py_get response_json ''code'' PNone of
                Inl e \<Rightarrow> (PNone, logger (ApiRequestError e) w1)
              | Inr code \<Rightarrow>
                  if code \<noteq> PStr ''000'' then
                    (case py_get response_json ''msg'' PNone of
                       Inl e \<Rightarrow> (PNone, logger (ApiRequestError e) w1)
                     | Inr msg \<Rightarrow> (PNone, logger (ApiError msg) w1))
                  else (response_json, w1)))"

text \<open>
  The guard \<open>r and r.get("code") == "000"\<close> that follows every call of
  \<open>_api_request\<close>.
\<close>

definition ok_response :: "pyval \<Rightarrow> exn + bool" where
  "ok_response r =
     (if \<not> py_truthy r then Inr False
      else case py_get r ''code'' PNone of
             Inl e \<Rightarrow> Inl e
           | Inr code \<Rightarrow> Inr (code = PStr ''000''))"

definition login :: "session \<Rightarrow> world \<Rightarrow> (exn + bool) \<times> world" where
  "login sess w =
     (case api_request sess ''android/mine/info/v1'' ''POST'' PNone w of
        (response, w1) \<Rightarrow>
          (case ok_response response of
             Inl e \<Rightarrow> (Inl e, w1)
           | Inr True \<Rightarrow>
               (case py_get response ''data'' PNone of
                  Inl e \<Rightarrow> (Inl e, w1)
                | Inr d \<Rightarrow> (Inr True, w1\<lparr>user_info := d\<rparr>))
           | Inr False \<Rightarrow> (Inr False, w1)))"

text \<open>A refresh returns a dictionary from group id to the group's device list.\<close>

type_synonym snapshot = "int \<rightharpoonup> pyval"

definition list_endpoint :: string where
  "list_endpoint = ''android/udm/getDeviceList/v1''"

definition list_query :: "int \<Rightarrow> pyval" where
  "list_query g =
     PDict [(''currentPage'', PInt 1), (''type'', PNone), (''deviceProductGroup'', PInt g)]"

text \<open>\<open>r.get("data", {}).get("list", [])\<close>: it raises when \<open>data\<close> is not a dictionary.\<close>

definition device_list :: "pyval \<Rightarrow> exn + pyval" where
  "device_list r =
     (case py_get r ''data'' (PDict []) of
        Inl e \<Rightarrow> Inl e
      | Inr d \<Rightarrow> py_get d ''list'' (PList []))"

text \<open>\<open>r.get("data", {}).get("list")\<close>, the third conjunct of the guard of the loop.\<close>

definition device_list_or_none :: "pyval \<Rightarrow> exn + pyval" where
  "device_list_or_none r =
     (case py_get r ''data'' (PDict []) of
        Inl e \<Rightarrow> Inl e
      | Inr d \<Rightarrow> py_get d ''list'' PNone)"

text \<open>
  The block \<open>update_data\<close> has once for the lights and once for the fans: the request,
  the guard, and the assignment to \<open>result[group]\<close>.
\<close>

definition fetch_group :: "session \<Rightarrow> int \<Rightarrow> snapshot \<Rightarrow> world \<Rightarrow> (exn + snapshot) \<times> world" where
  "fetch_group sess g result w =
     (case api_request sess list_endpoint ''POST'' (list_query g) w of
        (group_data, w1) \<Rightarrow>
          (case ok_response group_data of
             Inl e \<Rightarrow> (Inl e, w1)
           | Inr False \<Rightarrow> (Inr result, w1)
           | Inr True \<Rightarrow>
               (case device_list group_data of
                  Inl e \<Rightarrow> (Inl e, w1)
                | Inr l \<Rightarrow> (Inr (result(g \<mapsto> l)), w1))))"

text \<open>
  The loop over \<open>PRODUCT_GROUP_OTHER\<close>. Its guard has a third conjunct, evaluated only
  when the first two hold: the list must be truthy.
\<close>

fun fetch_other_groups ::
  "session \<Rightarrow> int list \<Rightarrow> snapshot \<Rightarrow> world \<Rightarrow> (exn + snapshot) \<times> world" where
  "fetch_other_groups sess [] result w = (Inr result, w)"
| "fetch_other_groups sess (group_id # rest) result w =
     (case api_request sess list_endpoint ''POST'' (list_query group_id) w of
        (other_data, w1) \<Rightarrow>
          (case ok_response other_data of
             Inl e \<Rightarrow> (Inl e, w1)
           | Inr False \<Rightarrow> fetch_other_groups sess rest result w1
           | Inr True \<Rightarrow>
               (case device_list_or_none other_data of
                  Inl e \<Rightarrow> (Inl e, w1)
                | Inr l \<Rightarrow>
                    if py_truthy l then
                      (case device_list other_data of
                         Inl e \<Rightarrow> (Inl e, w1)
                       | Inr l' \<Rightarrow> fetch_other_groups sess rest (result(group_id \<mapsto> l')) w1)
                    else fetch_other_groups sess rest result w1)))"

definition update_data :: "session \<Rightarrow> world \<Rightarrow> (exn + snapshot) \<times> world" where
  "update_data sess w =
     (case fetch_group sess PRODUCT_GROUP_LIGHT Map.empty w of
        (Inl e, w1) \<Rightarrow> (Inl e, w1)
      | (Inr result1, w1) \<Rightarrow>
          (case fetch_group sess PRODUCT_GROUP_FAN result1 w1 of
             (Inl e, w2) \<Rightarrow> (Inl e, w2)
           | (Inr result2, w2) \<Rightarrow> fetch_other_groups sess PRODUCT_GROUP_OTHER result2 w2))"

definition calculate_endpoint :: string where
  "calculate_endpoint = ''h5/product/getCalculateSum/v1''"

definition calculate_query :: "pyval \<Rightarrow> string \<Rightarrow> pyval \<Rightarrow> pyval" where
  "calculate_query device_id calculation speed_percentage =
     PDict [(''deviceId'', device_id),
            (''productCode'', PStr ''24''),
            (''calculationName'', PStr calculation),
            (''argsList'',
               PList [PDict [(''argName'', PStr ''windPercent''),
                             (''argValue'', speed_percentage)]])]"

text \<open>
  \<open>set_fan_speed\<close>: two requests, then the log line, whose arguments
  \<open>cfm_response.get('data')\<close> and \<open>pa_response.get('data')\<close> are evaluated outside
  any \<open>try\<close>.
\<close>

definition set_fan_speed :: "session \<Rightarrow> pyval \<Rightarrow> pyval \<Rightarrow> world \<Rightarrow> (exn + bool) \<times> world" where
  "set_fan_speed sess device_id speed_percentage w =
     (case api_request sess calculate_endpoint ''POST''
             (calculate_query device_id ''cfmCalculation'' speed_percentage) w of
        (cfm_response, w1) \<Rightarrow>
          (case api_request sess calculate_endpoint ''POST''
                  (calculate_query device_id ''paCalculation'' speed_percentage) w1 of
             (pa_response, w2) \<Rightarrow>
               (case py_get cfm_response ''data'' PNone of
                  Inl e \<Rightarrow> (Inl e, w2)
                | Inr cfm \<Rightarrow>
                    (case py_get pa_response ''data'' PNone of
                       Inl e \<Rightarrow> (Inl e, w2)
                     | Inr pa \<Rightarrow>
                         (Inr True, logger (SettingFan device_id speed_percentage cfm pa) w2)))))"

definition set_light_brightness :: "pyval \<Rightarrow> pyval \<Rightarrow> world \<Rightarrow> bool \<times> world" where
  "set_light_brightness device_id brightness_percentage w =
     (True, logger (SettingLight device_id brightness_percentage) w)"

section \<open>The entities\<close>

text \<open>
  What \<open>__init__\<close> of both entity classes keeps of a device: the dictionary of the
  device as the list request returned it, and its \<open>id\<close>. \<open>device_data["id"]\<close>
  and \<open>device_data['deviceName']\<close> raise unless the device is a dictionary with
  both keys.
\<close>

record entity =
  device_id :: pyval
  device_data :: "(string \<times> pyval) list"

fun init_entity :: "pyval \<Rightarrow> exn + entity" where
  "init_entity (PDict kvs) =
     (case map_of kvs ''id'' of
        None \<Rightarrow> Inl KeyError
      | Some i \<Rightarrow>
          (case map_of kvs ''deviceName'' of
             None \<Rightarrow> Inl KeyError
           | Some n \<Rightarrow> Inr \<lparr>device_id = i, device_data = kvs\<rparr>))"
| "init_entity PNone = Inl TypeError"
| "init_entity (PBool b) = Inl TypeError"
| "init_entity (PInt i) = Inl TypeError"
| "init_entity (PStr s) = Inl TypeError"
| "init_entity (PList xs) = Inl TypeError"

definition available :: "entity \<Rightarrow> bool" where
  "available ent = py_eq_int (dict_get (device_data ent) ''connectStatus'' PNone) 1"

subsection \<open>MarsProFan\<close>

text \<open>
  The conversion of \<open>percentage\<close>, from \<open>if fan_speed == 0\<close> on:
  \<open>min(max(int(fan_speed / 8.4), 25), 100)\<close>.
\<close>

definition speed_to_percentage :: "pyval \<Rightarrow> exn + pyval" where
  "speed_to_percentage fan_speed =
     (if py_eq_int fan_speed 0 then Inr (PInt 0)
      else case py_truediv fan_speed (42 / 5) of
             Inl e \<Rightarrow> Inl e
           | Inr q \<Rightarrow> Inr (PInt (min (max (py_int q) 25) 100)))"

text \<open>The statements of \<open>percentage\<close> inside \<open>try\<close>.\<close>

definition percentage_try :: "decoder \<Rightarrow> pyval \<Rightarrow> exn + pyval" where
  "percentage_try dec device_info =
     (case json_loads dec device_info of
        Inl e \<Rightarrow> Inl e
      | Inr info_dict \<Rightarrow>
          (case py_get info_dict ''fanSpeed'' (PInt 0) of
             Inl e \<Rightarrow> Inl e
           | Inr fan_speed \<Rightarrow> speed_to_percentage fan_speed))"

definition percentage :: "decoder \<Rightarrow> entity \<Rightarrow> world \<Rightarrow> pyval \<times> world" where
  "percentage dec ent w =
     (let device_info = dict_get (device_data ent) ''deviceInfo'' (PStr ''{}'')
      in case percentage_try dec device_info of
           Inr p \<Rightarrow> (p, w)
         | Inl e \<Rightarrow> (PNone, logger (ParseFanSpeedError e) w))"

text \<open>
  \<open>async_set_percentage\<close>. The host passes an integer or \<open>None\<close>, so
  \<open>int(percentage)\<close> is the integer itself.
\<close>

definition async_set_percentage ::
  "session \<Rightarrow> entity \<Rightarrow> int option \<Rightarrow> world \<Rightarrow> (exn + unit) \<times> world" where
  "async_set_percentage sess ent percentage_arg w =
     (let percentage0 = (case percentage_arg of None \<Rightarrow> 0 | Some p \<Rightarrow> p);
          percentage1 = min (max percentage0 25) 100
      in case set_fan_speed sess (device_id ent) (PInt percentage1) w of
           (Inl e, w1) \<Rightarrow> (Inl e, w1)
         | (Inr result, w1) \<Rightarrow>
             if result then (Inr (), async_request_refresh w1) else (Inr (), w1))"

definition fan_async_turn_on ::
  "session \<Rightarrow> entity \<Rightarrow> int option \<Rightarrow> world \<Rightarrow> (exn + unit) \<times> world" where
  "fan_async_turn_on sess ent percentage_arg w =
     (case percentage_arg of
        Some p \<Rightarrow> async_set_percentage sess ent (Some p) w
      | None \<Rightarrow> async_set_percentage sess ent (Some 25) w)"

definition fan_async_turn_off :: "session \<Rightarrow> entity \<Rightarrow> world \<Rightarrow> (exn + unit) \<times> world" where
  "fan_async_turn_off sess ent w = async_set_percentage sess ent (Some 25) w"

subsection \<open>MarsProLight\<close>

text \<open>
  The two conversions of the light, as the source writes them:
  \<open>min(max(int(last_bright * 255 / 100), 0), 255)\<close> in \<open>brightness\<close> and
  \<open>int(brightness * 100 / 255)\<close> in \<open>async_turn_on\<close>.
\<close>

definition raw_to_brightness :: "pyval \<Rightarrow> exn + pyval" where
  "raw_to_brightness last_bright =
     (case py_mul_int last_bright 255 of
        Inl e \<Rightarrow> Inl e
      | Inr product \<Rightarrow>
          (case py_truediv product 100 of
             Inl e \<Rightarrow> Inl e
           | Inr q \<Rightarrow> Inr (PInt (min (max (py_int q) 0) 255))))"

definition brightness_to_raw :: "int \<Rightarrow> int" where
  "brightness_to_raw brightness_arg = py_int (of_int (brightness_arg * 100) / 255)"

text \<open>The statements of \<open>brightness\<close> inside \<open>try\<close>.\<close>

definition brightness_try :: "decoder \<Rightarrow> pyval \<Rightarrow> exn + pyval" where
  "brightness_try dec device_info =
     (case json_loads dec device_info of
        Inl e \<Rightarrow> Inl e
      | Inr info_dict \<Rightarrow>
          (case py_get info_dict ''lastBright'' (PInt 0) of
             Inl e \<Rightarrow> Inl e
           | Inr last_bright \<Rightarrow> raw_to_brightness last_bright))"

definition brightness :: "decoder \<Rightarrow> entity \<Rightarrow> world \<Rightarrow> pyval \<times> world" where
  "brightness dec ent w =
     (let device_info = dict_get (device_data ent) ''deviceInfo'' (PStr ''{}'')
      in case brightness_try dec device_info of
           Inr b \<Rightarrow> (b, w)
         | Inl e \<Rightarrow> (PNone, logger (ParseBrightnessError e) w))"

text \<open>\<open>is_on\<close> is \<open>self.brightness > 0\<close>, with no \<open>try\<close> around the comparison.\<close>

definition is_on :: "decoder \<Rightarrow> entity \<Rightarrow> world \<Rightarrow> (exn + bool) \<times> world" where
  "is_on dec ent w =
     (case brightness dec ent w of (b, w1) \<Rightarrow> (py_gt_int b 0, w1))"

text \<open>
  \<open>async_turn_on\<close> of the light. With no brightness given, the stored
  \<open>lastBright\<close> is sent as it is, and 50 when the device information does not decode
  (a bare \<open>except\<close>).
\<close>

definition last_bright_or_default :: "decoder \<Rightarrow> pyval \<Rightarrow> pyval" where
  "last_bright_or_default dec device_info =
     (case json_loads dec device_info of
        Inl e \<Rightarrow> PInt 50
      | Inr info_dict \<Rightarrow>
          (case py_get info_dict ''lastBright'' (PInt 50) of
             Inl e \<Rightarrow> PInt 50
           | Inr b \<Rightarrow> b))"

definition light_async_turn_on ::
  "decoder \<Rightarrow> entity \<Rightarrow> int option \<Rightarrow> world \<Rightarrow> unit \<times> world" where
  "light_async_turn_on dec ent brightness_arg w =
     (let brightness_percentage =
            (case brightness_arg of
               Some b \<Rightarrow> PInt (brightness_to_raw b)
             | None \<Rightarrow>
                 last_bright_or_default dec
                   (dict_get (device_data ent) ''deviceInfo'' (PStr ''{}'')))
      in case set_light_brightness (device_id ent) brightness_percentage w of
           (result, w1) \<Rightarrow> if result then ((), async_request_refresh w1) else ((), w1))"

definition light_async_turn_off :: "entity \<Rightarrow> world \<Rightarrow> unit \<times> world" where
  "light_async_turn_off ent w =
     (case set_light_brightness (device_id ent) (PInt 0) w of
        (result, w1) \<Rightarrow> if result then ((), async_request_refresh w1) else ((), w1))"

section \<open>The configuration flow\<close>

text \<open>
  The flow imports \<open>MarsProApi\<close> from a module \<open>marspro_integration\<close>; the
  client it uses is taken to be the \<open>MarsProApi\<close> above. The form's input is a
  record, as it is after the host has applied \<open>DATA_SCHEMA\<close>.
\<close>

record user_input =
  username :: string
  password :: string
  name :: string

text \<open>
  \<open>validate_input\<close> makes a new client (its \<open>user_info\<close> is \<open>None\<close>) and logs
  in. \<open>raise InvalidAuth\<close> stands inside the \<open>try\<close> whose handler is
  \<open>except Exception\<close>: \<open>validate_try\<close> is the body of the \<open>try\<close>, the handler
  follows in \<open>validate_input\<close>. The result is the \<open>title\<close> of the entry.
\<close>

definition validate_try :: "session \<Rightarrow> world \<Rightarrow> (exn + unit) \<times> world" where
  "validate_try sess w =
     (case login sess w of
        (Inl e, w1) \<Rightarrow> (Inl e, w1)
      | (Inr result, w1) \<Rightarrow>
          if \<not> result then (Inl InvalidAuth, w1) else (Inr (), w1))"

definition validate_input :: "session \<Rightarrow> user_input \<Rightarrow> world \<Rightarrow> (exn + string) \<times> world" where
  "validate_input sess data w =
     (case validate_try sess (w\<lparr>user_info := PNone\<rparr>) of
        (Inl exception, w1) \<Rightarrow>
          (Inl (CannotConnect exception), logger (ConnectionError exception) w1)
      | (Inr u, w1) \<Rightarrow> (Inr (name data), w1))"

datatype flow_result =
    CreateEntry string user_input
  | ShowForm "(string \<times> string) list"

definition async_step_user ::
  "session \<Rightarrow> user_input option \<Rightarrow> world \<Rightarrow> flow_result \<times> world" where
  "async_step_user sess input w =
     (case input of
        None \<Rightarrow> (ShowForm [], w)
      | Some data \<Rightarrow>
          (case validate_input sess data w of
             (Inr title, w1) \<Rightarrow> (CreateEntry title data, w1)
           | (Inl (CannotConnect cause), w1) \<Rightarrow> (ShowForm [(''base'', ''cannot_connect'')], w1)
           | (Inl InvalidAuth, w1) \<Rightarrow> (ShowForm [(''base'', ''invalid_auth'')], w1)
           | (Inl e, w1) \<Rightarrow>
               (ShowForm [(''base'', ''unknown'')], logger (UnexpectedException e) w1)))"

section \<open>The spec's reference formulas\<close>

text \<open>
  The spec writes its conversions with \<open>round\<close> and \<open>clamp\<close>. These two
  definitions follow the spec's words, to be compared with the code's conversions:
  \<open>clamp(x, lo, hi)\<close>, and rounding to the nearest integer, a tie going to the even
  one as Python's \<open>round\<close> does.
\<close>

definition clamp :: "int \<Rightarrow> int \<Rightarrow> int \<Rightarrow> int" where
  "clamp x lo hi = min (max x lo) hi"

definition spec_round :: "rat \<Rightarrow> int" where
  "spec_round q =
     (let f = \<lfloor>q\<rfloor>; d = q - of_int f
      in if d < 1 / 2 then f
         else if 1 / 2 < d then f + 1
         else if even f then f else f + 1)"

section \<open>Sample inputs\<close>

text \<open>
  Concrete inputs for the closed statements below. \<open>sample_decoder\<close> agrees
  with \<open>json.loads\<close> on the device information strings of the sample devices;
  the string \<open>not json\<close> is not JSON.
\<close>

definition world0 :: world where
  "world0 = \<lparr>sent = [], logged = [], user_info = PNone, refresh_requests = 0\<rparr>"

definition sample_decoder :: decoder where
  \<open>sample_decoder s =
     (if s = ''{"lastBright": 50}'' then Inr (PDict [(''lastBright'', PInt 50)])
      else if s = ''{"fanSpeed": 215}'' then Inr (PDict [(''fanSpeed'', PInt 215)])
      else if s = ''{}'' then Inr (PDict [])
      else Inl JSONDecodeError)\<close>

definition sample_light :: entity where
  \<open>sample_light =
     \<lparr>device_id = PInt 11,
      device_data = [(''id'', PInt 11), (''deviceName'', PStr ''Lamp''),
                     (''connectStatus'', PInt 1), (''deviceInfo'', PStr ''{"lastBright": 50}'')]\<rparr>\<close>

definition sample_fan :: entity where
  \<open>sample_fan =
     \<lparr>device_id = PInt 22,
      device_data = [(''id'', PInt 22), (''deviceName'', PStr ''Fan''),
                     (''connectStatus'', PInt 1), (''deviceInfo'', PStr ''{"fanSpeed": 215}'')]\<rparr>\<close>

definition broken_light :: entity where
  "broken_light =
     \<lparr>device_id = PInt 12,
      device_data = [(''id'', PInt 12), (''deviceName'', PStr ''Lamp 2''),
                     (''connectStatus'', PInt 1), (''deviceInfo'', PStr ''not json'')]\<rparr>"

definition broken_fan :: entity where
  "broken_fan =
     \<lparr>device_id = PInt 23,
      device_data = [(''id'', PInt 23), (''deviceName'', PStr ''Fan 2''),
                     (''connectStatus'', PInt 1), (''deviceInfo'', PStr ''not json'')]\<rparr>"

definition sample_device :: pyval where
  "sample_device =
     PDict [(''id'', PInt 11), (''deviceName'', PStr ''Lamp''), (''connectStatus'', PInt 1)]"

definition sample_input :: user_input where
  "sample_input = \<lparr>username = ''grower'', password = ''secret'', name = ''MarsPro''\<rparr>"

text \<open>A server that answers every request with a status code other than \<open>"000"\<close>.\<close>

definition declining_session :: session where
  "declining_session req =
     Inr (PDict [(''code'', PStr ''401''), (''msg'', PStr ''unauthorized'')])"

text \<open>A server that cannot be reached: every request raises.\<close>

definition unreachable_session :: session where
  "unreachable_session req = Inl ClientError"

section \<open>Auxiliary definitions of the proofs\<close>

text \<open>
  The value \<open>_api_request\<close> returns for a request, without the world: the response
  when its \<open>code\<close> is \<open>"000"\<close>, \<open>None\<close> otherwise
  (\<open>api_request_post_fst\<close> below).
\<close>

definition received :: "session \<Rightarrow> http_request \<Rightarrow> pyval" where
  "received sess req =
     (case sess req of
        Inl e \<Rightarrow> PNone
      | Inr response_json \<Rightarrow>
          (case py_get response_json ''code'' PNone of
             Inl e \<Rightarrow> PNone
           | Inr code \<Rightarrow> if code \<noteq> PStr ''000'' then PNone else response_json))"

text \<open>The request \<open>update_data\<close> sends for a group.\<close>

definition list_request :: "int \<Rightarrow> http_request" where
  "list_request g = Post (base_url @ list_endpoint) (list_query g)"

text \<open>
  A response whose \<open>data\<close> is a JSON object, or is missing: the shape the list
  endpoint has in the wire protocol (payload under \<open>data\<close>, the devices under
  \<open>data.list\<close>).
\<close>

fun data_is_object :: "pyval \<Rightarrow> bool" where
  "data_is_object (PDict kvs) =
     (case map_of kvs ''data'' of
        None \<Rightarrow> True
      | Some (PDict d) \<Rightarrow> True
      | Some other \<Rightarrow> False)"
| "data_is_object other = False"

text \<open>
  A refresh cycle: the lights are listed, the fan request fails in transport, group 3 is
  empty, group 6 is rejected by the server, group 7 has a device.
\<close>

definition sample_session :: session where
  "sample_session req =
     (if req = list_request 1 then
        Inr (PDict [(''code'', PStr ''000''),
                    (''data'', PDict [(''list'', PList [sample_device])])])
      else if req = list_request 3 then
        Inr (PDict [(''code'', PStr ''000''), (''data'', PDict [(''list'', PList [])])])
      else if req = list_request 6 then
        Inr (PDict [(''code'', PStr ''500''), (''msg'', PStr ''error'')])
      else if req = list_request 7 then
        Inr (PDict [(''code'', PStr ''000''),
                    (''data'', PDict [(''list'', PList [sample_device])])])
      else Inl ClientError)"

definition sample_snapshot :: snapshot where
  "sample_snapshot = [1 \<mapsto> PList [sample_device], 7 \<mapsto> PList [sample_device]]"

text \<open>
  A refresh cycle: the lights are listed, every other request fails in transport, but
  group 3 is answered with the status code \<open>"000"\<close> and \<open>"data": null\<close>.
\<close>

definition null_data_session :: session where
  "null_data_session req =
     (if req = list_request 1 then
        Inr (PDict [(''code'', PStr ''000''),
                    (''data'', PDict [(''list'', PList [sample_device])])])
      else if req = list_request 3 then
        Inr (PDict [(''code'', PStr ''000''), (''data'', PNone)])
      else Inl ClientError)"

section \<open>Arithmetic of the conversions\<close>

lemma py_int_of_int_div:
  "0 \<le> a \<Longrightarrow> 0 < b \<Longrightarrow> py_int (of_int a / of_int b) = a div b"
  by (simp add: py_int_def floor_divide_of_int_eq)

lemma floor_rat_numeral:
  "\<lfloor>(numeral a / numeral b :: rat)\<rfloor> = numeral a div numeral b"
  by (metis floor_divide_of_int_eq of_int_numeral)

lemma speed_quotient: "(of_int s :: rat) / (42 / 5) = of_int (5 * s) / of_int 42"
  by simp

lemma floor_speed: "\<lfloor>(of_int s :: rat) / (42 / 5)\<rfloor> = (5 * s) div 42"
  by (simp only: speed_quotient floor_divide_of_int_eq)

lemma speed_to_percentage_int:
  assumes "0 \<le> s" and "s \<le> 840"
  shows "speed_to_percentage (PInt s) =
           Inr (PInt (if s = 0 then 0 else min (max ((5 * s) div 42) 25) 100))"
proof -
  have "py_int (of_int (5 * s) / of_int 42) = (5 * s) div 42"
    using assms(1) by (intro py_int_of_int_div) simp_all
  then have "py_int ((of_int s :: rat) / (42 / 5)) = (5 * s) div 42"
    by (simp only: speed_quotient)
  then show ?thesis
    by (simp add: speed_to_percentage_def py_eq_int_def py_truediv_def)
qed

lemma raw_to_brightness_int:
  assumes "0 \<le> r" and "r \<le> 100"
  shows "raw_to_brightness (PInt r) = Inr (PInt (min (max ((r * 255) div 100) 0) 255))"
proof -
  have "py_int (of_int (r * 255) / of_int 100) = (r * 255) div 100"
    using assms(1) by (intro py_int_of_int_div) simp_all
  then show ?thesis
    by (simp add: raw_to_brightness_def py_truediv_def)
qed

lemma brightness_to_raw_int:
  assumes "0 \<le> h" and "h \<le> 255"
  shows "brightness_to_raw h = (h * 100) div 255"
proof -
  have "py_int (of_int (h * 100) / of_int 255) = (h * 100) div 255"
    using assms(1) by (intro py_int_of_int_div) simp_all
  then show ?thesis
    by (simp add: brightness_to_raw_def)
qed

lemma div_bounds:
  fixes a d :: int
  assumes "0 < d"
  shows "d * (a div d) \<le> a" and "a < d * (a div d) + d"
proof -
  have "a = d * (a div d) + a mod d" by simp
  moreover have "0 \<le> a mod d" and "a mod d < d"
    using assms by simp_all
  ultimately show "d * (a div d) \<le> a" and "a < d * (a div d) + d"
    by linarith+
qed

lemma decoded_range:
  fixes r :: int
  assumes "0 \<le> r" "r \<le> 100"
  shows "0 \<le> (r * 255) div 100" and "(r * 255) div 100 \<le> 255"
  using div_bounds [of 100 "r * 255"] assms by linarith+

lemma roundtrip_arith:
  fixes r :: int
  assumes "0 \<le> r" "r \<le> 100"
  shows "\<bar>(((r * 255) div 100) * 100) div 255 - r\<bar> \<le> 1"
proof -
  define h where "h = (r * 255) div 100"
  define p where "p = (h * 100) div 255"
  have h1: "100 * h \<le> r * 255" and h2: "r * 255 < 100 * h + 100"
    unfolding h_def using div_bounds [of 100 "r * 255"] by simp_all
  have p1: "255 * p \<le> h * 100" and p2: "h * 100 < 255 * p + 255"
    unfolding p_def using div_bounds [of 255 "h * 100"] by simp_all
  have "\<bar>p - r\<bar> \<le> 1"
    using h1 h2 p1 p2 by linarith
  then show ?thesis
    by (simp add: h_def p_def)
qed

section \<open>Decoding the device information\<close>

lemma brightness_decoded:
  assumes "map_of (device_data ent) ''deviceInfo'' = Some (PStr s)"
    and "dec s = Inr (PDict kvs)"
    and "map_of kvs ''lastBright'' = Some last_bright"
  shows "brightness dec ent w =
           (case raw_to_brightness last_bright of
              Inr b \<Rightarrow> (b, w)
            | Inl e \<Rightarrow> (PNone, logger (ParseBrightnessError e) w))"
  using assms by (simp add: brightness_def brightness_try_def dict_get_def)

lemma percentage_decoded:
  assumes "map_of (device_data ent) ''deviceInfo'' = Some (PStr s)"
    and "dec s = Inr (PDict kvs)"
    and "map_of kvs ''fanSpeed'' = Some fan_speed"
  shows "percentage dec ent w =
           (case speed_to_percentage fan_speed of
              Inr p \<Rightarrow> (p, w)
            | Inl e \<Rightarrow> (PNone, logger (ParseFanSpeedError e) w))"
  using assms by (simp add: percentage_def percentage_try_def dict_get_def)

lemma brightness_undecodable:
  assumes "map_of (device_data ent) ''deviceInfo'' = Some (PStr s)"
    and "dec s = Inl e"
  shows "brightness dec ent w = (PNone, logger (ParseBrightnessError e) w)"
  using assms by (simp add: brightness_def brightness_try_def dict_get_def)

lemma percentage_undecodable:
  assumes "map_of (device_data ent) ''deviceInfo'' = Some (PStr s)"
    and "dec s = Inl e"
  shows "percentage dec ent w = (PNone, logger (ParseFanSpeedError e) w)"
  using assms by (simp add: percentage_def percentage_try_def dict_get_def)

lemma turn_on_logged:
  "logged (snd (light_async_turn_on dec ent (Some b) w)) =
     logged w @ [SettingLight (device_id ent) (PInt (brightness_to_raw b))]"
  by (simp add: light_async_turn_on_def set_light_brightness_def logger_def
      async_request_refresh_def)

lemma sample_info:
  "map_of (device_data sample_light) ''deviceInfo'' = Some (PStr ''{\"lastBright\": 50}'')"
  "map_of (device_data sample_fan) ''deviceInfo'' = Some (PStr ''{\"fanSpeed\": 215}'')"
  "map_of (device_data broken_light) ''deviceInfo'' = Some (PStr ''not json'')"
  "map_of (device_data broken_fan) ''deviceInfo'' = Some (PStr ''not json'')"
  by (simp_all add: sample_light_def sample_fan_def broken_light_def broken_fan_def)

lemma sample_decoded:
  "sample_decoder ''{\"lastBright\": 50}'' = Inr (PDict [(''lastBright'', PInt 50)])"
  "sample_decoder ''{\"fanSpeed\": 215}'' = Inr (PDict [(''fanSpeed'', PInt 215)])"
  "sample_decoder ''not json'' = Inl JSONDecodeError"
  by (simp_all add: sample_decoder_def)

text \<open>
  Claim C1, as amended. A light or fan whose \<open>deviceInfo\<close> is a string that does not
  decode reports \<open>None\<close> as its brightness and as its speed percentage. Both properties
  return a value: the exception of the decoder is caught inside them. The claim has the
  value 0 in place of \<open>None\<close>.
\<close>

theorem C1_malformed_info_yields_none:
  assumes "map_of (device_data ent) ''deviceInfo'' = Some (PStr s)"
    and "dec s = Inl e"
  shows "fst (brightness dec ent w) = PNone \<and> fst (percentage dec ent w) = PNone"
  using assms by (simp add: brightness_undecodable percentage_undecodable)

theorem C1_malformed_info_yields_none_witness:
  "fst (brightness sample_decoder broken_light world0) = PNone
   \<and> fst (percentage sample_decoder broken_light world0) = PNone"
  using C1_malformed_info_yields_none
          [of broken_light "''not json''" sample_decoder JSONDecodeError world0,
           OF sample_info(3) sample_decoded(3)]
  by simp

text \<open>
  Claim C1 as stated fails: the device information \<open>not json\<close> does not decode, and
  neither the brightness of the light nor the percentage of the fan is 0.
\<close>

theorem C1_malformed_info_is_not_zero:
  "sample_decoder ''not json'' = Inl JSONDecodeError
   \<and> fst (brightness sample_decoder broken_light world0) \<noteq> PInt 0
   \<and> fst (percentage sample_decoder broken_fan world0) \<noteq> PInt 0"
  by code_simp

text \<open>
  Claim C2, as amended. For a fan whose decoded \<open>deviceInfo\<close> holds the raw speed
  \<open>s\<close> with \<open>0 \<le> s \<le> 840\<close>, the percentage is 0 when \<open>s = 0\<close> and otherwise
  \<open>s / 8.4\<close> truncated to an integer (the claim rounds it) and clamped to 25..100. So
  it is 0 or lies in 25..100, and the raw speeds 0, 420, 840 and 50 give 0, 50, 100 and
  25.
\<close>

theorem C2_fan_percentage_truncates:
  assumes "map_of (device_data ent) ''deviceInfo'' = Some (PStr str)"
    and "dec str = Inr (PDict kvs)"
    and "map_of kvs ''fanSpeed'' = Some (PInt s)"
    and "0 \<le> s" and "s \<le> 840"
  shows "\<exists>p. fst (percentage dec ent w) = PInt p
           \<and> p = (if s = 0 then 0 else clamp \<lfloor>(of_int s :: rat) / (42 / 5)\<rfloor> 25 100)
           \<and> (p = 0 \<or> (25 \<le> p \<and> p \<le> 100))
           \<and> speed_to_percentage (PInt 0) = Inr (PInt 0)
           \<and> speed_to_percentage (PInt 420) = Inr (PInt 50)
           \<and> speed_to_percentage (PInt 840) = Inr (PInt 100)
           \<and> speed_to_percentage (PInt 50) = Inr (PInt 25)"
proof -
  define p where "p = (if s = 0 then 0 else clamp \<lfloor>(of_int s :: rat) / (42 / 5)\<rfloor> 25 100)"
  have "speed_to_percentage (PInt s) = Inr (PInt p)"
    unfolding p_def clamp_def floor_speed using speed_to_percentage_int [OF assms(4,5)] .
  then have "fst (percentage dec ent w) = PInt p"
    using percentage_decoded [of ent str dec kvs, OF assms(1-3)] by simp
  moreover have "p = 0 \<or> (25 \<le> p \<and> p \<le> 100)"
    by (simp add: p_def clamp_def)
  moreover have "speed_to_percentage (PInt 0) = Inr (PInt 0)"
    and "speed_to_percentage (PInt 420) = Inr (PInt 50)"
    and "speed_to_percentage (PInt 840) = Inr (PInt 100)"
    and "speed_to_percentage (PInt 50) = Inr (PInt 25)"
    by (simp_all add: speed_to_percentage_int)
  ultimately show ?thesis
    using p_def by blast
qed

theorem C2_fan_percentage_truncates_witness:
  "fst (percentage sample_decoder sample_fan world0) = PInt 25"
proof -
  have "map_of [(''fanSpeed'', PInt 215)] ''fanSpeed'' = Some (PInt 215)"
    by simp
  from C2_fan_percentage_truncates
         [of sample_fan "''{\"fanSpeed\": 215}''" sample_decoder "[(''fanSpeed'', PInt 215)]"
             215 world0,
          OF sample_info(2) sample_decoded(2) this]
  show ?thesis
    by (simp add: clamp_def floor_rat_numeral)
qed

text \<open>
  Claim C2 as stated fails at the raw speed 215: \<open>215 / 8.4\<close> is 25.59..., the spec's
  formula rounds it to 26, the fan reports 25.
\<close>

theorem C2_fan_percentage_not_rounded:
  "fst (percentage sample_decoder sample_fan world0) = PInt 25
   \<and> clamp (spec_round (215 / (42 / 5))) 25 100 = 26
   \<and> fst (percentage sample_decoder sample_fan world0)
       \<noteq> PInt (clamp (spec_round (215 / (42 / 5))) 25 100)"
  by code_simp

text \<open>
  Claim C5. A light whose decoded \<open>deviceInfo\<close> holds the raw brightness \<open>r\<close> with
  \<open>0 \<le> r \<le> 100\<close> reports a brightness \<open>h\<close>; turning a light on with the
  brightness \<open>h\<close> (any light, whatever its own \<open>deviceInfo\<close> and the decoder)
  commands a raw level \<open>p\<close> that differs from \<open>r\<close> by at most 1: \<open>p\<close> is
  the turn-on conversion of \<open>h\<close>.
\<close>

theorem C5_brightness_roundtrip:
  assumes "map_of (device_data ent) ''deviceInfo'' = Some (PStr s)"
    and "dec s = Inr (PDict kvs)"
    and "map_of kvs ''lastBright'' = Some (PInt r)"
    and "0 \<le> r" and "r \<le> 100"
  shows "\<exists>h p. fst (brightness dec ent w) = PInt h
           \<and> p = brightness_to_raw h
           \<and> logged (snd (light_async_turn_on dec' ent' (Some h) w')) =
               logged w' @ [SettingLight (device_id ent') (PInt p)]
           \<and> \<bar>p - r\<bar> \<le> 1"
proof -
  define h where "h = (r * 255) div 100"
  have range: "0 \<le> h" "h \<le> 255"
    unfolding h_def using decoded_range assms(4,5) by simp_all
  have "raw_to_brightness (PInt r) = Inr (PInt h)"
    using raw_to_brightness_int [OF assms(4,5)] range by (simp add: h_def)
  then have "fst (brightness dec ent w) = PInt h"
    using brightness_decoded [of ent s dec kvs, OF assms(1-3)] by simp
  moreover have "\<bar>brightness_to_raw h - r\<bar> \<le> 1"
    using roundtrip_arith [OF assms(4,5)] brightness_to_raw_int [OF range]
    by (simp add: h_def)
  ultimately show ?thesis
    using turn_on_logged by blast
qed

theorem C5_brightness_roundtrip_witness:
  "\<exists>h p. fst (brightness sample_decoder sample_light world0) = PInt h
     \<and> p = brightness_to_raw h
     \<and> logged (snd (light_async_turn_on sample_decoder broken_light (Some h) world0)) =
         logged world0 @ [SettingLight (device_id broken_light) (PInt p)]
     \<and> \<bar>p - 50\<bar> \<le> 1"
proof -
  have "map_of [(''lastBright'', PInt 50)] ''lastBright'' = Some (PInt 50)"
    by simp
  from C5_brightness_roundtrip
         [of sample_light "''{\"lastBright\": 50}''" sample_decoder
             "[(''lastBright'', PInt 50)]" 50 world0 sample_decoder broken_light world0,
          OF sample_info(1) sample_decoded(1) this]
  show ?thesis
    by simp
qed

text \<open>
  Claim C6, as amended. The code truncates where the spec's formulas round: for a host
  brightness \<open>h\<close> in 0..255 the raw value sent is \<open>h * 100 / 255\<close> rounded down,
  and for a raw \<open>lastBright\<close> \<open>r\<close> in 0..100 the brightness reported is
  \<open>r * 255 / 100\<close> rounded down and clamped to 0..255.
\<close>

theorem C6_brightness_codec_truncates:
  assumes "0 \<le> h" and "h \<le> 255" and "0 \<le> r" and "r \<le> 100"
  shows "brightness_to_raw h = \<lfloor>(of_int h :: rat) * 100 / 255\<rfloor>
         \<and> raw_to_brightness (PInt r) =
             Inr (PInt (clamp \<lfloor>(of_int r :: rat) * 255 / 100\<rfloor> 0 255))"
proof -
  have "\<lfloor>(of_int h :: rat) * 100 / 255\<rfloor> = (h * 100) div 255"
    using floor_divide_of_int_eq [of "h * 100" 255, where ?'a = rat] by simp
  moreover have "\<lfloor>(of_int r :: rat) * 255 / 100\<rfloor> = (r * 255) div 100"
    using floor_divide_of_int_eq [of "r * 255" 100, where ?'a = rat] by simp
  ultimately show ?thesis
    using assms by (simp add: brightness_to_raw_int raw_to_brightness_int clamp_def)
qed

theorem C6_brightness_codec_truncates_witness:
  "brightness_to_raw 128 = 50 \<and> raw_to_brightness (PInt 50) = Inr (PInt 127)"
  using C6_brightness_codec_truncates [of 128 50]
  by (simp add: clamp_def floor_rat_numeral)

text \<open>
  Claim C6 as stated fails: the host brightness 2 is sent as the raw value 0, where
  \<open>round(2 * 100 / 255)\<close> is 1, and the raw value 1 is reported as the brightness 2,
  where \<open>round(1 * 255 / 100)\<close> is 3.
\<close>

theorem C6_brightness_codec_not_rounded:
  "brightness_to_raw 2 = 0 \<and> spec_round (of_int 2 * 100 / 255) = 1
   \<and> brightness_to_raw 2 \<noteq> spec_round (of_int 2 * 100 / 255)
   \<and> raw_to_brightness (PInt 1) = Inr (PInt 2)
   \<and> clamp (spec_round (of_int 1 * 255 / 100)) 0 255 = 3
   \<and> raw_to_brightness (PInt 1) \<noteq> Inr (PInt (clamp (spec_round (of_int 1 * 255 / 100)) 0 255))"
  by code_simp

text \<open>
  Claim C10. A light whose \<open>deviceInfo\<close> is a string that does not decode reports the
  brightness \<open>None\<close>, and reading \<open>is_on\<close> raises \<open>TypeError\<close>, from comparing
  \<open>None\<close> with 0.
\<close>

theorem C10_malformed_info_breaks_is_on:
  assumes "map_of (device_data ent) ''deviceInfo'' = Some (PStr s)"
    and "dec s = Inl e"
  shows "fst (brightness dec ent w) = PNone \<and> fst (is_on dec ent w) = Inl TypeError"
  using assms by (simp add: brightness_undecodable is_on_def py_gt_int_def)

theorem C10_malformed_info_breaks_is_on_witness:
  "fst (brightness sample_decoder broken_light world0) = PNone
   \<and> fst (is_on sample_decoder broken_light world0) = Inl TypeError"
  using C10_malformed_info_breaks_is_on
          [of broken_light "''not json''" sample_decoder JSONDecodeError world0,
           OF sample_info(3) sample_decoded(3)]
  by simp

section \<open>The requests of the API client\<close>

lemma api_request_post_fst:
  "fst (api_request sess endpoint ''POST'' data w) =
     received sess (Post (base_url @ endpoint) (if py_truthy data then data else PDict []))"
  by (simp add: api_request_def received_def Let_def split: sum.splits)

lemma api_request_post_sent:
  "sent (snd (api_request sess endpoint ''POST'' data w)) =
     sent w @ [Post (base_url @ endpoint) (if py_truthy data then data else PDict [])]"
  by (simp add: api_request_def logger_def Let_def split: sum.splits)

lemma list_request_fst:
  "fst (api_request sess list_endpoint ''POST'' (list_query g) w) = received sess (list_request g)"
  by (simp add: api_request_post_fst list_request_def list_query_def)

lemma received_cases:
  "received sess req = PNone
   \<or> (\<exists>kvs. received sess req = PDict kvs \<and> map_of kvs ''code'' = Some (PStr ''000''))"
proof (cases "sess req")
  case (Inl e)
  then show ?thesis by (simp add: received_def)
next
  case (Inr j)
  then show ?thesis
    by (cases j) (auto simp: received_def dict_get_def split: option.splits)
qed

lemma ok_response_received:
  "ok_response (received sess req) = Inr (received sess req \<noteq> PNone)"
  using received_cases [of sess req]
  by (auto simp: ok_response_def dict_get_def)

text \<open>\<open>login\<close> returns a boolean whatever the session does.\<close>

lemma login_returns_bool:
  "fst (login sess w) =
     Inr (fst (api_request sess ''android/mine/info/v1'' ''POST'' PNone w) \<noteq> PNone)"
proof -
  let ?r = "received sess (Post (base_url @ ''android/mine/info/v1'') (PDict []))"
  have "fst (login sess w) =
          (if ?r \<noteq> PNone
           then (case py_get ?r ''data'' PNone of Inl e \<Rightarrow> Inl e | Inr d \<Rightarrow> Inr True)
           else Inr False)"
    by (simp add: login_def case_prod_beta api_request_post_fst ok_response_received
        split: sum.splits)
  moreover have "?r = PNone \<or> (\<exists>kvs. ?r = PDict kvs)"
    using received_cases [of sess "Post (base_url @ ''android/mine/info/v1'') (PDict [])"]
    by blast
  ultimately show ?thesis
    by (auto simp: api_request_post_fst)
qed

section \<open>The refresh cycle\<close>

lemma device_list_truthy:
  assumes "device_list_or_none r = Inr l" and "py_truthy l"
  shows "device_list r = Inr l"
proof (cases "py_get r ''data'' (PDict [])")
  case (Inl e)
  with assms show ?thesis by (simp add: device_list_or_none_def)
next
  case (Inr d)
  with assms show ?thesis
    by (cases d)
      (auto simp: device_list_or_none_def device_list_def dict_get_def split: option.splits)
qed

lemma device_list_object:
  assumes "data_is_object r"
  shows "\<exists>l. device_list_or_none r = Inr l"
proof -
  obtain kvs where r: "r = PDict kvs"
    using assms by (cases r) simp_all
  show ?thesis
    using assms unfolding r
    by (auto simp: device_list_or_none_def dict_get_def split: option.splits pyval.splits)
qed

text \<open>
  \<open>r.get("data", {}).get("list", [])\<close> on a response whose \<open>data\<close> is an object
  or is missing.
\<close>

lemma device_list_of_object:
  assumes "data_is_object (PDict kvs)"
  shows "device_list (PDict kvs) =
           Inr (case map_of kvs ''data'' of
                  Some (PDict d) \<Rightarrow> dict_get d ''list'' (PList [])
                | Some other \<Rightarrow> PList []
                | None \<Rightarrow> PList [])"
  using assms
  by (auto simp: device_list_def dict_get_def split: option.splits pyval.splits)

lemma fetch_group_fst:
  "fst (fetch_group sess g result w) =
     (if received sess (list_request g) = PNone then Inr result
      else case device_list (received sess (list_request g)) of
             Inl e \<Rightarrow> Inl e
           | Inr l \<Rightarrow> Inr (result(g \<mapsto> l)))"
  by (simp add: fetch_group_def case_prod_beta list_request_fst ok_response_received
      split: sum.splits)

lemma fetch_group_keeps:
  assumes "fst (fetch_group sess g0 result w) = Inr r" and "g \<noteq> g0"
  shows "r g = result g"
  using assms by (auto simp: fetch_group_fst split: if_splits sum.splits)

lemma fetch_other_groups_Cons_fst:
  "fst (fetch_other_groups sess (g # rest) result w) =
     (let r = received sess (list_request g);
          w1 = snd (api_request sess list_endpoint ''POST'' (list_query g) w)
      in if r = PNone then fst (fetch_other_groups sess rest result w1)
         else case device_list_or_none r of
                Inl e \<Rightarrow> Inl e
              | Inr l \<Rightarrow>
                  if py_truthy l
                  then fst (fetch_other_groups sess rest (result(g \<mapsto> l)) w1)
                  else fst (fetch_other_groups sess rest result w1))"
proof -
  have "device_list (received sess (list_request g)) = Inr l"
    if "device_list_or_none (received sess (list_request g)) = Inr l" "py_truthy l" for l
    using that by (rule device_list_truthy)
  then show ?thesis
    by (simp add: case_prod_beta list_request_fst ok_response_received Let_def
        split: sum.splits)
qed

declare fetch_other_groups.simps(2) [simp del]

text \<open>
  What the loop leaves under a key: the value the key had before, or the truthy list of
  a group of the loop whose request succeeded.
\<close>

lemma fetch_other_groups_entry:
  assumes "fst (fetch_other_groups sess gs result w) = Inr snap"
    and "snap g = Some v"
  shows "result g = Some v
         \<or> (g \<in> set gs \<and> received sess (list_request g) \<noteq> PNone
             \<and> device_list (received sess (list_request g)) = Inr v \<and> py_truthy v)"
  using assms
proof (induction gs arbitrary: result w)
  case Nil
  then show ?case by simp
next
  case (Cons a gs)
  let ?r = "received sess (list_request a)"
  let ?w1 = "snd (api_request sess list_endpoint ''POST'' (list_query a) w)"
  show ?case
  proof (cases "?r = PNone")
    case True
    then have "fst (fetch_other_groups sess gs result ?w1) = Inr snap"
      using Cons.prems(1) by (simp add: fetch_other_groups_Cons_fst Let_def)
    from Cons.IH [OF this Cons.prems(2)] show ?thesis by auto
  next
    case False
    then obtain l where l: "device_list_or_none ?r = Inr l"
      using Cons.prems(1)
      by (cases "device_list_or_none ?r") (simp_all add: fetch_other_groups_Cons_fst Let_def)
    show ?thesis
    proof (cases "py_truthy l")
      case True
      then have "fst (fetch_other_groups sess gs (result(a \<mapsto> l)) ?w1) = Inr snap"
        using Cons.prems(1) False l by (simp add: fetch_other_groups_Cons_fst Let_def)
      from Cons.IH [OF this Cons.prems(2)] show ?thesis
        using False True l device_list_truthy [OF l True]
        by (auto split: if_splits)
    next
      case nt: False
      then have "fst (fetch_other_groups sess gs result ?w1) = Inr snap"
        using Cons.prems(1) False l by (simp add: fetch_other_groups_Cons_fst Let_def)
      from Cons.IH [OF this Cons.prems(2)] show ?thesis by auto
    qed
  qed
qed

lemma fetch_other_groups_keeps:
  assumes "fst (fetch_other_groups sess gs result w) = Inr snap"
    and "g \<notin> set gs"
  shows "snap g = result g"
  using assms
proof (induction gs arbitrary: result w)
  case Nil
  then show ?case by simp
next
  case (Cons a gs)
  let ?w1 = "snd (api_request sess list_endpoint ''POST'' (list_query a) w)"
  have g: "g \<noteq> a" "g \<notin> set gs"
    using Cons.prems(2) by auto
  consider (skip) "fst (fetch_other_groups sess gs result ?w1) = Inr snap"
    | (store) l where "fst (fetch_other_groups sess gs (result(a \<mapsto> l)) ?w1) = Inr snap"
    using Cons.prems(1)
    by (auto simp: fetch_other_groups_Cons_fst Let_def split: if_splits sum.splits)
  then show ?case
  proof cases
    case skip
    from Cons.IH [OF this g(2)] show ?thesis .
  next
    case store
    from Cons.IH [OF this g(2)] show ?thesis using g(1) by simp
  qed
qed

text \<open>The loop returns when no response of its groups has a \<open>data\<close> that is not an object.\<close>

lemma fetch_other_groups_returns:
  assumes "\<forall>g\<in>set gs. received sess (list_request g) = PNone
                       \<or> data_is_object (received sess (list_request g))"
  shows "\<exists>snap. fst (fetch_other_groups sess gs result w) = Inr snap"
  using assms
proof (induction gs arbitrary: result w)
  case Nil
  then show ?case by simp
next
  case (Cons a gs)
  let ?r = "received sess (list_request a)"
  have rest: "\<forall>g\<in>set gs. received sess (list_request g) = PNone
                       \<or> data_is_object (received sess (list_request g))"
    using Cons.prems by simp
  show ?case
  proof (cases "?r = PNone")
    case True
    then show ?thesis
      using Cons.IH [OF rest] by (simp add: fetch_other_groups_Cons_fst Let_def)
  next
    case False
    then have "data_is_object ?r"
      using Cons.prems by simp
    then obtain l where "device_list_or_none ?r = Inr l"
      using device_list_object by blast
    then show ?thesis
      using False Cons.IH [OF rest] by (simp add: fetch_other_groups_Cons_fst Let_def)
  qed
qed

lemma update_data_fst:
  "fst (update_data sess w) =
     (case fst (fetch_group sess PRODUCT_GROUP_LIGHT Map.empty w) of
        Inl e \<Rightarrow> Inl e
      | Inr result1 \<Rightarrow>
          (case fst (fetch_group sess PRODUCT_GROUP_FAN result1
                      (snd (fetch_group sess PRODUCT_GROUP_LIGHT Map.empty w))) of
             Inl e \<Rightarrow> Inl e
           | Inr result2 \<Rightarrow>
               fst (fetch_other_groups sess PRODUCT_GROUP_OTHER result2
                     (snd (fetch_group sess PRODUCT_GROUP_FAN result1
                            (snd (fetch_group sess PRODUCT_GROUP_LIGHT Map.empty w)))))))"
  by (simp add: update_data_def split: prod.splits sum.splits)

lemma update_data_stages:
  assumes "fst (update_data sess w) = Inr snap"
  obtains result1 result2 w1 w2 where
    "fst (fetch_group sess PRODUCT_GROUP_LIGHT Map.empty w) = Inr result1"
    and "fst (fetch_group sess PRODUCT_GROUP_FAN result1 w1) = Inr result2"
    and "fst (fetch_other_groups sess PRODUCT_GROUP_OTHER result2 w2) = Inr snap"
proof (cases "fst (fetch_group sess PRODUCT_GROUP_LIGHT Map.empty w)")
  case (Inl e)
  with assms show ?thesis by (simp add: update_data_fst)
next
  case r1: (Inr result1)
  show ?thesis
  proof (cases "fst (fetch_group sess PRODUCT_GROUP_FAN result1
                      (snd (fetch_group sess PRODUCT_GROUP_LIGHT Map.empty w)))")
    case (Inl e)
    with assms r1 show ?thesis by (simp add: update_data_fst)
  next
    case r2: (Inr result2)
    with assms r1 have "fst (fetch_other_groups sess PRODUCT_GROUP_OTHER result2
        (snd (fetch_group sess PRODUCT_GROUP_FAN result1
               (snd (fetch_group sess PRODUCT_GROUP_LIGHT Map.empty w))))) = Inr snap"
      by (simp add: update_data_fst)
    with r1 r2 show ?thesis by (rule that)
  qed
qed

lemma received_sample:
  "received sample_session (list_request 1) =
     PDict [(''code'', PStr ''000''), (''data'', PDict [(''list'', PList [sample_device])])]"
  "received sample_session (list_request 2) = PNone"
  "received sample_session (list_request 3) =
     PDict [(''code'', PStr ''000''), (''data'', PDict [(''list'', PList [])])]"
  "received sample_session (list_request 6) = PNone"
  "received sample_session (list_request 7) =
     PDict [(''code'', PStr ''000''), (''data'', PDict [(''list'', PList [sample_device])])]"
  by (simp_all add: received_def sample_session_def list_request_def list_query_def dict_get_def)

lemma update_data_sample: "fst (update_data sample_session world0) = Inr sample_snapshot"
  by (simp add: update_data_fst PRODUCT_GROUP_LIGHT_def PRODUCT_GROUP_FAN_def
      PRODUCT_GROUP_OTHER_def fetch_group_fst fetch_other_groups_Cons_fst
      received_sample device_list_def device_list_or_none_def dict_get_def Let_def
      sample_snapshot_def)

lemma received_null_data:
  "received null_data_session (list_request 1) =
     PDict [(''code'', PStr ''000''), (''data'', PDict [(''list'', PList [sample_device])])]"
  "received null_data_session (list_request 2) = PNone"
  "received null_data_session (list_request 3) =
     PDict [(''code'', PStr ''000''), (''data'', PNone)]"
  by (simp_all add: received_def null_data_session_def list_request_def list_query_def
      dict_get_def)

text \<open>
  Claim C3, as amended. In a refresh cycle where the fan request fails (\<open>_api_request\<close>
  returns \<open>None\<close>, whatever the cause), the light request succeeds, and the response
  of the light request and of each other group's request that succeeds has an object or
  nothing under \<open>data\<close>, \<open>update_data\<close> returns a snapshot: no exception leaves
  it. The snapshot holds under the light group the list of the light response,
  \<open>data.list\<close>, or the empty list when \<open>data\<close> or \<open>list\<close> is missing, and it
  has no key for the fan group. The claim has no condition on the shape of the responses.
\<close>

theorem C3_refresh_survives_fan_failure:
  assumes fan: "fst (api_request sess list_endpoint ''POST'' (list_query PRODUCT_GROUP_FAN) w2)
                  = PNone"
    and light: "fst (api_request sess list_endpoint ''POST'' (list_query PRODUCT_GROUP_LIGHT) w1)
                  = PDict kvs"
    and data: "data_is_object (PDict kvs)"
    and others: "\<forall>g\<in>set PRODUCT_GROUP_OTHER.
                   fst (api_request sess list_endpoint ''POST'' (list_query g) w3) = PNone
                   \<or> data_is_object
                        (fst (api_request sess list_endpoint ''POST'' (list_query g) w3))"
  shows "\<exists>snap devices. fst (update_data sess w) = Inr snap
           \<and> device_list (PDict kvs) = Inr devices
           \<and> devices = (case map_of kvs ''data'' of
                           Some (PDict d) \<Rightarrow> dict_get d ''list'' (PList [])
                         | Some other \<Rightarrow> PList []
                         | None \<Rightarrow> PList [])
           \<and> snap PRODUCT_GROUP_LIGHT = Some devices
           \<and> snap PRODUCT_GROUP_FAN = None"
proof -
  define devices where "devices = (case map_of kvs ''data'' of
                           Some (PDict d) \<Rightarrow> dict_get d ''list'' (PList [])
                         | Some other \<Rightarrow> PList []
                         | None \<Rightarrow> PList [])"
  have dl: "device_list (PDict kvs) = Inr devices"
    unfolding devices_def using data by (rule device_list_of_object)
  have l: "fst (fetch_group sess PRODUCT_GROUP_LIGHT Map.empty w) =
             Inr [PRODUCT_GROUP_LIGHT \<mapsto> devices]" for w
    using light dl by (simp add: fetch_group_fst list_request_fst)
  have f: "fst (fetch_group sess PRODUCT_GROUP_FAN result w) = Inr result" for result w
    using fan by (simp add: fetch_group_fst list_request_fst)
  obtain w' where u: "fst (update_data sess w) =
      fst (fetch_other_groups sess PRODUCT_GROUP_OTHER [PRODUCT_GROUP_LIGHT \<mapsto> devices] w')"
    using l [of w] f by (simp add: update_data_fst)
  have "\<forall>g\<in>set PRODUCT_GROUP_OTHER. received sess (list_request g) = PNone
                       \<or> data_is_object (received sess (list_request g))"
    using others by (simp add: list_request_fst)
  then obtain snap where s: "fst (fetch_other_groups sess PRODUCT_GROUP_OTHER
      [PRODUCT_GROUP_LIGHT \<mapsto> devices] w') = Inr snap"
    using fetch_other_groups_returns by blast
  have "snap g = [PRODUCT_GROUP_LIGHT \<mapsto> devices] g" if "g \<notin> set PRODUCT_GROUP_OTHER" for g
    using fetch_other_groups_keeps [OF s that] .
  then have lf: "snap PRODUCT_GROUP_LIGHT = Some devices" "snap PRODUCT_GROUP_FAN = None"
    by (simp_all add: PRODUCT_GROUP_OTHER_def PRODUCT_GROUP_LIGHT_def PRODUCT_GROUP_FAN_def)
  from u s have r: "fst (update_data sess w) = Inr snap"
    by simp
  show ?thesis
  proof (intro exI conjI)
    show "fst (update_data sess w) = Inr snap" by (rule r)
    show "device_list (PDict kvs) = Inr devices" by (rule dl)
    show "devices = (case map_of kvs ''data'' of
                       Some (PDict d) \<Rightarrow> dict_get d ''list'' (PList [])
                     | Some other \<Rightarrow> PList []
                     | None \<Rightarrow> PList [])" by (rule devices_def)
    show "snap PRODUCT_GROUP_LIGHT = Some devices" by (rule lf(1))
    show "snap PRODUCT_GROUP_FAN = None" by (rule lf(2))
  qed
qed

theorem C3_refresh_survives_fan_failure_witness:
  "\<exists>snap. fst (update_data sample_session world0) = Inr snap
     \<and> snap PRODUCT_GROUP_LIGHT = Some (PList [sample_device])
     \<and> snap PRODUCT_GROUP_FAN = None"
proof -
  let ?d = "[(''list'', PList [sample_device])]"
  let ?kvs = "[(''code'', PStr ''000''), (''data'', PDict ?d)]"
  have fan: "fst (api_request sample_session list_endpoint ''POST''
                    (list_query PRODUCT_GROUP_FAN) world0) = PNone"
    by (simp add: list_request_fst received_sample PRODUCT_GROUP_FAN_def)
  have light: "fst (api_request sample_session list_endpoint ''POST''
                      (list_query PRODUCT_GROUP_LIGHT) world0) = PDict ?kvs"
    by (simp add: list_request_fst received_sample PRODUCT_GROUP_LIGHT_def)
  have data: "data_is_object (PDict ?kvs)"
    by simp
  have others: "\<forall>g\<in>set PRODUCT_GROUP_OTHER.
      fst (api_request sample_session list_endpoint ''POST'' (list_query g) world0) = PNone
      \<or> data_is_object
           (fst (api_request sample_session list_endpoint ''POST'' (list_query g) world0))"
    by (simp add: list_request_fst received_sample PRODUCT_GROUP_OTHER_def)
  from C3_refresh_survives_fan_failure [OF fan light data others, of world0]
  show ?thesis
    by (auto simp: dict_get_def)
qed

text \<open>
  Claim C3 as stated fails. In this cycle the fan request fails and the light request
  succeeds with a device, and \<open>update_data\<close> raises \<open>AttributeError\<close>: group 3 is
  answered with the status code \<open>"000"\<close> and \<open>"data": null\<close>, and
  \<open>other_data.get("data", {}).get("list")\<close> calls \<open>get\<close> on \<open>None\<close>.
\<close>

theorem C3_refresh_raises_on_null_data:
  "fst (api_request null_data_session list_endpoint ''POST''
          (list_query PRODUCT_GROUP_FAN) world0) = PNone
   \<and> fst (api_request null_data_session list_endpoint ''POST''
            (list_query PRODUCT_GROUP_LIGHT) world0) =
       PDict [(''code'', PStr ''000''), (''data'', PDict [(''list'', PList [sample_device])])]
   \<and> fst (update_data null_data_session world0) = Inl AttributeError"
  by (simp add: update_data_fst PRODUCT_GROUP_LIGHT_def PRODUCT_GROUP_FAN_def
      PRODUCT_GROUP_OTHER_def fetch_group_fst fetch_other_groups_Cons_fst list_request_fst
      received_null_data device_list_def device_list_or_none_def dict_get_def Let_def)

text \<open>
  Claim C8. When a refresh returns a snapshot, a group \<open>g\<close> of
  \<open>PRODUCT_GROUP_OTHER\<close> is a key of it only if the group's request succeeded and the
  list it returned is non-empty (truthy, so not the empty list); the snapshot holds that
  list. A group whose request returns the empty list is not a key of the snapshot.
\<close>

theorem C8_other_group_needs_nonempty_list:
  assumes "fst (update_data sess w) = Inr snap"
    and "g \<in> set PRODUCT_GROUP_OTHER"
  shows "(\<forall>v. snap g = Some v \<longrightarrow>
            fst (api_request sess list_endpoint ''POST'' (list_query g) w') \<noteq> PNone
            \<and> device_list (fst (api_request sess list_endpoint ''POST'' (list_query g) w'))
                = Inr v
            \<and> py_truthy v \<and> v \<noteq> PList [])
         \<and> (device_list (fst (api_request sess list_endpoint ''POST'' (list_query g) w'))
              = Inr (PList []) \<longrightarrow> snap g = None)"
proof -
  let ?r = "received sess (list_request g)"
  have g: "g \<noteq> PRODUCT_GROUP_LIGHT" "g \<noteq> PRODUCT_GROUP_FAN"
    using assms(2)
    by (auto simp: PRODUCT_GROUP_OTHER_def PRODUCT_GROUP_LIGHT_def PRODUCT_GROUP_FAN_def)
  obtain result1 result2 w1 w2 where
    light: "fst (fetch_group sess PRODUCT_GROUP_LIGHT Map.empty w) = Inr result1"
    and fan: "fst (fetch_group sess PRODUCT_GROUP_FAN result1 w1) = Inr result2"
    and other: "fst (fetch_other_groups sess PRODUCT_GROUP_OTHER result2 w2) = Inr snap"
    using assms(1) by (rule update_data_stages)
  have empty: "result2 g = None"
    using fetch_group_keeps [OF light g(1)] fetch_group_keeps [OF fan g(2)] by simp
  have entry: "?r \<noteq> PNone \<and> device_list ?r = Inr v \<and> py_truthy v" if "snap g = Some v" for v
    using fetch_other_groups_entry [OF other that] empty by simp
  have "v \<noteq> PList []" if "py_truthy v" for v
    using that by auto
  with entry have "\<forall>v. snap g = Some v \<longrightarrow>
      ?r \<noteq> PNone \<and> device_list ?r = Inr v \<and> py_truthy v \<and> v \<noteq> PList []"
    by blast
  moreover have "snap g = None" if "device_list ?r = Inr (PList [])"
  proof (cases "snap g")
    case None
    then show ?thesis .
  next
    case (Some v)
    with entry that show ?thesis by auto
  qed
  ultimately show ?thesis
    unfolding list_request_fst by blast
qed

theorem C8_other_group_needs_nonempty_list_witness:
  "fst (update_data sample_session world0) = Inr sample_snapshot
   \<and> 3 \<in> set PRODUCT_GROUP_OTHER
   \<and> device_list (fst (api_request sample_session list_endpoint ''POST'' (list_query 3) world0))
       = Inr (PList [])
   \<and> sample_snapshot 3 = None"
proof -
  have a: "fst (update_data sample_session world0) = Inr sample_snapshot"
    by (rule update_data_sample)
  have b: "3 \<in> set PRODUCT_GROUP_OTHER"
    by (simp add: PRODUCT_GROUP_OTHER_def)
  have c: "device_list (fst (api_request sample_session list_endpoint ''POST''
                               (list_query 3) world0)) = Inr (PList [])"
    by (simp add: list_request_fst received_sample device_list_def dict_get_def)
  show ?thesis
    using C8_other_group_needs_nonempty_list [OF a b, of world0] a b c by blast
qed

section \<open>The commands of the entities\<close>

lemma set_fan_speed_sent:
  "sent (snd (set_fan_speed sess dev p w)) =
     sent w @ [Post (base_url @ calculate_endpoint) (calculate_query dev ''cfmCalculation'' p),
               Post (base_url @ calculate_endpoint) (calculate_query dev ''paCalculation'' p)]"
  by (simp add: set_fan_speed_def case_prod_beta api_request_post_sent logger_def
      calculate_query_def split: sum.splits)

lemma async_set_percentage_sent:
  "sent (snd (async_set_percentage sess ent p w)) =
     sent (snd (set_fan_speed sess (device_id ent)
                  (PInt (min (max (case p of None \<Rightarrow> 0 | Some x \<Rightarrow> x) 25) 100)) w))"
  by (simp add: async_set_percentage_def Let_def async_request_refresh_def
      split: prod.splits sum.splits)

lemma fan_async_turn_on_sent:
  "sent (snd (fan_async_turn_on sess ent p w)) =
     sent (snd (set_fan_speed sess (device_id ent)
                  (PInt (min (max (case p of None \<Rightarrow> 25 | Some x \<Rightarrow> x) 25) 100)) w))"
  by (cases p) (simp_all add: fan_async_turn_on_def async_set_percentage_sent)

text \<open>
  Claim C7. Turning a fan off sends the two calculate requests with the wind percentage
  25. Turning a light off commands the raw level 0: \<open>set_light_brightness\<close> logs it
  and sends nothing. Every fan command sends a percentage clamped to 25..100:
  \<open>async_set_percentage\<close> the host's percentage \<open>p\<close> (0 when the host gives
  none), \<open>async_turn_on\<close> the host's percentage \<open>p\<close> (25 when the host gives
  none), turning off 25.
\<close>

theorem C7_turn_off_commands:
  "sent (snd (fan_async_turn_off sess fan w)) =
     sent w @ [Post (base_url @ calculate_endpoint)
                 (calculate_query (device_id fan) ''cfmCalculation'' (PInt 25)),
               Post (base_url @ calculate_endpoint)
                 (calculate_query (device_id fan) ''paCalculation'' (PInt 25))]
   \<and> logged (snd (light_async_turn_off light w)) =
       logged w @ [SettingLight (device_id light) (PInt 0)]
   \<and> sent (snd (light_async_turn_off light w)) = sent w
   \<and> (\<exists>q. q = clamp (case p of None \<Rightarrow> 0 | Some x \<Rightarrow> x) 25 100
          \<and> 25 \<le> q \<and> q \<le> 100
          \<and> sent (snd (async_set_percentage sess fan p w)) =
              sent w @ [Post (base_url @ calculate_endpoint)
                          (calculate_query (device_id fan) ''cfmCalculation'' (PInt q)),
                        Post (base_url @ calculate_endpoint)
                          (calculate_query (device_id fan) ''paCalculation'' (PInt q))])
   \<and> (\<exists>q. q = clamp (case p of None \<Rightarrow> 25 | Some x \<Rightarrow> x) 25 100
          \<and> 25 \<le> q \<and> q \<le> 100
          \<and> sent (snd (fan_async_turn_on sess fan p w)) =
              sent w @ [Post (base_url @ calculate_endpoint)
                          (calculate_query (device_id fan) ''cfmCalculation'' (PInt q)),
                        Post (base_url @ calculate_endpoint)
                          (calculate_query (device_id fan) ''paCalculation'' (PInt q))])"
proof -
  have "logged (snd (light_async_turn_off light w)) =
          logged w @ [SettingLight (device_id light) (PInt 0)]"
    and "sent (snd (light_async_turn_off light w)) = sent w"
    by (simp_all add: light_async_turn_off_def set_light_brightness_def logger_def
        async_request_refresh_def)
  moreover have "sent (snd (fan_async_turn_off sess fan w)) =
     sent w @ [Post (base_url @ calculate_endpoint)
                 (calculate_query (device_id fan) ''cfmCalculation'' (PInt 25)),
               Post (base_url @ calculate_endpoint)
                 (calculate_query (device_id fan) ''paCalculation'' (PInt 25))]"
    by (simp add: fan_async_turn_off_def async_set_percentage_sent set_fan_speed_sent)
  moreover have "25 \<le> clamp x 25 100 \<and> clamp x 25 100 \<le> 100" for x
    by (simp add: clamp_def)
  ultimately show ?thesis
    by (simp add: async_set_percentage_sent fan_async_turn_on_sent set_fan_speed_sent
        clamp_def)
qed

text \<open>
  Claim C9. When one of the two calculate requests of \<open>set_fan_speed\<close> fails
  (\<open>_api_request\<close> returns \<open>None\<close>), \<open>set_fan_speed\<close> raises
  \<open>AttributeError\<close>, from \<open>.get('data')\<close> on \<open>None\<close> in the log line; it
  returns no result.
\<close>

theorem C9_set_fan_speed_raises:
  assumes "fst (api_request sess calculate_endpoint ''POST''
                  (calculate_query dev ''cfmCalculation'' p) w1) = PNone
           \<or> fst (api_request sess calculate_endpoint ''POST''
                  (calculate_query dev ''paCalculation'' p) w2) = PNone"
  shows "fst (set_fan_speed sess dev p w) = Inl AttributeError"
proof -
  let ?cfm = "received sess (Post (base_url @ calculate_endpoint)
                (calculate_query dev ''cfmCalculation'' p))"
  let ?pa = "received sess (Post (base_url @ calculate_endpoint)
                (calculate_query dev ''paCalculation'' p))"
  have q: "py_truthy (calculate_query dev c p)" for c
    by (simp add: calculate_query_def)
  have fst: "fst (set_fan_speed sess dev p w) =
     (case py_get ?cfm ''data'' PNone of
        Inl e \<Rightarrow> Inl e
      | Inr cfm \<Rightarrow> (case py_get ?pa ''data'' PNone of Inl e \<Rightarrow> Inl e | Inr pa \<Rightarrow> Inr True))"
    by (simp add: set_fan_speed_def case_prod_beta api_request_post_fst q split: sum.splits)
  from assms have "?cfm = PNone \<or> ?pa = PNone"
    by (simp add: api_request_post_fst q)
  then show ?thesis
  proof
    assume "?cfm = PNone"
    then show ?thesis by (simp add: fst)
  next
    assume pa: "?pa = PNone"
    from received_cases [of sess "Post (base_url @ calculate_endpoint)
        (calculate_query dev ''cfmCalculation'' p)"]
    show ?thesis
      by (auto simp: fst pa)
  qed
qed

theorem C9_set_fan_speed_raises_witness:
  "fst (set_fan_speed unreachable_session (PInt 22) (PInt 50) world0) = Inl AttributeError"
proof -
  have "fst (api_request unreachable_session calculate_endpoint ''POST''
               (calculate_query (PInt 22) ''cfmCalculation'' (PInt 50)) world0) = PNone"
    by (simp add: api_request_post_fst received_def unreachable_session_def)
  then show ?thesis
    using C9_set_fan_speed_raises
            [of unreachable_session "PInt 22" "PInt 50" world0 world0 world0]
    by simp
qed

section \<open>The errors of the configuration flow\<close>

text \<open>
  No input makes the flow show \<open>invalid_auth\<close>: \<open>validate_input\<close> raises nothing
  but \<open>CannotConnect\<close>.
\<close>

lemma invalid_auth_unreachable:
  "fst (async_step_user sess input w) \<noteq> ShowForm [(''base'', ''invalid_auth'')]"
  by (simp add: async_step_user_def validate_input_def
      split: option.splits prod.splits sum.splits exn.splits)

text \<open>
  Claim C4. \<open>login\<close> returns \<open>False\<close> on declined credentials and raises nothing,
  as the claim says. But the flow shows \<open>cannot_connect\<close> for a declined login, the
  same error as for a server that cannot be reached, where the claim has
  \<open>invalid_auth\<close>: \<open>raise InvalidAuth\<close> stands inside the \<open>try\<close> and is caught by
  its \<open>except Exception\<close>, which raises \<open>CannotConnect\<close>.
\<close>

theorem C4_declined_login_shows_cannot_connect:
  "fst (login declining_session world0) = Inr False
   \<and> fst (async_step_user declining_session (Some sample_input) world0) =
       ShowForm [(''base'', ''cannot_connect'')]
   \<and> fst (async_step_user unreachable_session (Some sample_input) world0) =
       ShowForm [(''base'', ''cannot_connect'')]"
  by code_simp


end
